theory Spec2Isabelle
  imports Complex_Main
begin

section \<open>Liquid Pressure chess: clock, pressure state, move selector and game loop\<close>

text \<open>
  A shallow embedding of \<^verbatim>\<open>liquid_pressure_chess.py\<close>. Python floats are
  modelled as \<^typ>\<open>real\<close> numbers with exact arithmetic, Python ints as
  \<^typ>\<open>int\<close>, strings as \<^typ>\<open>string\<close>. The module's globals are one
  record that every operation takes and returns. What the program obtains from
  outside (the chess rules library, the Stockfish process, the wall clock, the
  random module, the keyboard) enters the model as data: each function that
  consults one of them takes the answer as an argument.
\<close>

subsection \<open>Errors\<close>

text \<open>The exceptions the program can raise; \<open>SystemExit\<close> is \<^verbatim>\<open>exit("Game exited.")\<close>.\<close>

datatype error = IndexError | ValueError | EOFError | SystemExit

subsection \<open>What the chess library and the engine answer\<close>

datatype piece_type = PAWN | KNIGHT | BISHOP | ROOK | QUEEN | KING

record chess_piece =
  piece_type :: piece_type
  color :: bool

text \<open>A \<^verbatim>\<open>chess.Move\<close>: squares are numbered 0 (a1) to 63 (h8).\<close>

record chess_move =
  from_square :: nat
  to_square :: nat
  promotion :: "piece_type option"

text \<open>
  A \<^verbatim>\<open>chess.Board\<close>, seen through the queries the program makes of it.
\<close>

record chess_board =
  fullmove_number :: int
  turn :: bool
  legal_moves :: "chess_move list"
  is_check :: bool
  is_capture :: "chess_move \<Rightarrow> bool"
  piece_at :: "nat \<Rightarrow> chess_piece option"
  king :: "bool \<Rightarrow> nat option"
  is_game_over :: bool
  is_checkmate :: bool
  is_stalemate :: bool
  is_insufficient_material :: bool
  is_fifty_moves :: bool

text \<open>An entry of the list \<^verbatim>\<open>sf.get_top_moves(n)\<close> returns.\<close>

record move_info =
  Move :: string
  Centipawn :: "int option"
  Mate :: "int option"

text \<open>The Stockfish wrapper object: its skill level and the moves sent to it.\<close>

record stockfish =
  skill_level :: int
  sf_moves :: "string list"

text \<open>
  The outcomes of the random module during one engine turn, one field for each
  call site: a \<open>_u\<close> field is the value of a \<^verbatim>\<open>random.random()\<close> call (or
  the one underlying \<^verbatim>\<open>random.uniform\<close> and \<^verbatim>\<open>random.choices\<close>), a
  \<open>_k\<close> field the raw integer behind a \<^verbatim>\<open>random.randint\<close> or
  \<^verbatim>\<open>random.choice\<close>. Each call site runs at most once per turn.
\<close>

record draws =
  skill_k :: nat
  blitz_u :: real
  solid_u :: real
  solid_k :: nat
  noise_u :: real
  noise_k :: nat
  waves_u :: real
  tide_u :: real
  tide_k :: nat
  base_u :: real
  trouble_u :: real

text \<open>
  The two collaborators and the wall clock, as functions the program calls:
  \<^verbatim>\<open>chess.Move.from_uci\<close> (\<open>None\<close> when it raises \<^verbatim>\<open>ValueError\<close>),
  \<^verbatim>\<open>board.push_uci\<close> (\<open>None\<close> when it raises \<^verbatim>\<open>ValueError\<close>; otherwise the
  board after the move), \<^verbatim>\<open>sf.get_top_moves\<close>, Stockfish's own check of a move
  (\<^verbatim>\<open>make_moves_from_current_position\<close> raises \<^verbatim>\<open>ValueError\<close> when it fails),
  the \<open>k\<close>-th reading of \<^verbatim>\<open>datetime.now()\<close> in seconds, and the random
  outcomes of the \<open>n\<close>-th engine turn.
\<close>

record world =
  from_uci :: "string \<Rightarrow> chess_move option"
  push_uci :: "chess_board \<Rightarrow> string \<Rightarrow> chess_board option"
  get_top_moves :: "stockfish \<Rightarrow> nat \<Rightarrow> move_info list"
  is_move_correct :: "stockfish \<Rightarrow> string \<Rightarrow> bool"
  now :: "nat \<Rightarrow> real"
  rolls :: "nat \<Rightarrow> draws"

subsection \<open>Globals\<close>

datatype phase_name = calm_flow | building_waves | crushing_tide

record liquid_style =
  pressure :: real
  flow_momentum :: real
  time_awareness :: string
  phase :: phase_name

record globals =
  board :: chess_board
  sf :: stockfish
  engine_time_remaining :: real
  opponent_time_remaining :: real
  last_move_time :: real
  LIQUID_STYLE :: liquid_style

definition GAME_DURATION :: real where
  "GAME_DURATION = 10 * 60"

definition initial_style :: liquid_style where
  "initial_style =
     \<lparr>pressure = 0.0, flow_momentum = 0.0, time_awareness = ''balanced'', phase = calm_flow\<rparr>"

subsection \<open>Time management\<close>

text \<open>
  \<^verbatim>\<open>update_clock\<close>: \<open>current_time\<close> is the reading of \<^verbatim>\<open>datetime.now()\<close>,
  in seconds. The function returns the elapsed time and the updated globals.
\<close>

definition update_clock :: "bool \<Rightarrow> real \<Rightarrow> globals \<Rightarrow> real \<times> globals" where
  "update_clock is_engine_move current_time g =
     (let elapsed = current_time - last_move_time g;
          g1 = g\<lparr>last_move_time := current_time\<rparr>;
          g2 = (if is_engine_move
                then g1\<lparr>opponent_time_remaining := opponent_time_remaining g1 - elapsed\<rparr>
                else g1\<lparr>engine_time_remaining := engine_time_remaining g1 - elapsed\<rparr>)
      in (elapsed, g2))"

definition get_time_pressure :: "real \<Rightarrow> int \<Rightarrow> real" where
  "get_time_pressure time_remaining move_number =
     (let expected_moves = (40::int);
          time_per_move = GAME_DURATION / real_of_int expected_moves;
          moves_remaining = expected_moves - move_number
      in if moves_remaining \<le> 0 then 1.0
         else let available_time = time_remaining / real_of_int moves_remaining;
                  pressure = max 0 (1.0 - (available_time / time_per_move))
              in min 1.0 pressure)"

text \<open>\<^verbatim>\<open>random.uniform(a, b)\<close> is \<^verbatim>\<open>a + (b - a) * random()\<close>; \<open>u\<close> is the draw.\<close>

definition uniform :: "real \<Rightarrow> real \<Rightarrow> real \<Rightarrow> real" where
  "uniform a b u = a + (b - a) * u"

text \<open>
  \<^verbatim>\<open>adaptive_thinking_time\<close>: \<open>base_u\<close> is the draw of the one
  \<^verbatim>\<open>random.uniform\<close> call made for the base time, \<open>trouble_u\<close> the draw of the
  one made in time trouble (not consulted otherwise). The cap
  \<^verbatim>\<open>time_remaining * 0.1\<close> is an exact product here; the float product of
  the program can differ from it in the last place (at three seconds it is
  0.30000000000000004), so a property of this function is stated in terms of
  that product and not of its decimal value.
\<close>

definition adaptive_thinking_time ::
  "draws \<Rightarrow> chess_board \<Rightarrow> real \<Rightarrow> real \<Rightarrow> real" where
  "adaptive_thinking_time d b time_remaining p =
     (let move_number = fullmove_number b;
          time_pressure = get_time_pressure time_remaining move_number;
          base_time = (if p < 0.3 then uniform 2.0 4.0 (base_u d)
                       else if p < 0.7 then uniform 3.0 6.0 (base_u d)
                       else uniform 1.5 3.5 (base_u d));
          base_time = (if time_pressure > 0.5
                       then base_time * (1.0 - time_pressure * 0.6) else base_time);
          base_time = (if time_remaining < 60 then uniform 0.5 2.0 (trouble_u d)
                       else if time_remaining < 180 then uniform 1.0 3.0 (trouble_u d)
                       else base_time);
          base_time = max 0.3 base_time;
          max_reasonable = time_remaining * 0.1;
          base_time = min base_time max_reasonable
      in base_time)"

subsection \<open>Liquid pressure core logic\<close>

text \<open>
  \<^verbatim>\<open>update_liquid_momentum\<close> works on the \<^verbatim>\<open>LIQUID_STYLE\<close> dictionary; the
  board is the position after the move.
\<close>

definition update_liquid_momentum ::
  "chess_board \<Rightarrow> string \<Rightarrow> real \<Rightarrow> liquid_style \<Rightarrow> liquid_style" where
  "update_liquid_momentum b move_uci time_used st =
     (let st1 = st\<lparr>flow_momentum := min 1.0 (flow_momentum st + 0.06)\<rparr>;
          position_complexity = real (length (legal_moves b)) / 20.0;
          time_efficiency = min 1.0 (time_used / 5.0);
          st2 = st1\<lparr>pressure := flow_momentum st1 * 0.6
                                + position_complexity * 0.3
                                + time_efficiency * 0.1\<rparr>
      in if pressure st2 < 0.4 then st2\<lparr>phase := calm_flow\<rparr>
         else if pressure st2 < 0.8 then st2\<lparr>phase := building_waves\<rparr>
         else st2\<lparr>phase := crushing_tide\<rparr>)"

definition get_positional_tension :: "chess_board \<Rightarrow> real" where
  "get_positional_tension b =
     (let tension = 0.0;
          piece_count = length (filter (\<lambda>sq. piece_at b sq \<noteq> None) [0..<64]);
          tension = tension + (real piece_count / 32.0) * 0.3;
          tension = (if is_check b then tension + 0.2 else tension);
          tension = (if list_ex (is_capture b) (legal_moves b) then tension + 0.2 else tension);
          move_count = length (legal_moves b);
          tension = tension + min 0.3 (real move_count / 50.0)
      in min 1.0 tension)"

subsection \<open>Python lists and the random module\<close>

text \<open>\<^verbatim>\<open>xs[i]\<close> for \<open>i \<ge> 0\<close>, and \<^verbatim>\<open>xs[i:j]\<close> for \<open>0 \<le> i \<le> j\<close>.\<close>

definition py_get :: "'a list \<Rightarrow> nat \<Rightarrow> error + 'a" where
  "py_get xs i = (if i < length xs then Inr (xs ! i) else Inl IndexError)"

definition py_slice :: "'a list \<Rightarrow> nat \<Rightarrow> nat \<Rightarrow> 'a list" where
  "py_slice xs i j = take (j - i) (drop i xs)"

text \<open>
  \<^verbatim>\<open>random.choice(seq)\<close> returns \<^verbatim>\<open>seq[j]\<close> for a random \<open>j\<close> below the
  length and raises \<^verbatim>\<open>IndexError\<close> on an empty sequence; with the raw draw
  \<open>k\<close>, \<open>j\<close> is \<open>k mod length seq\<close>, which reaches every index and no other.
  \<^verbatim>\<open>random.randint(a, b)\<close> likewise returns \<open>a + k mod (b - a + 1)\<close>.
\<close>

definition random_choice :: "nat \<Rightarrow> 'a list \<Rightarrow> error + 'a" where
  "random_choice k seq = (if seq = [] then Inl IndexError else Inr (seq ! (k mod length seq)))"

definition random_randint :: "int \<Rightarrow> int \<Rightarrow> nat \<Rightarrow> int" where
  "random_randint a b k = a + int (k mod nat (b - a + 1))"

text \<open>
  \<^verbatim>\<open>random.choices(population, weights=weights, k=1)[0]\<close>: the cumulative
  weights are bisected at \<open>u * total\<close>; a total that is not positive raises
  \<^verbatim>\<open>ValueError\<close>. On the increasing cumulative weights of positive weights the
  bisection returns the number of entries, the last left out, that are at most
  the probe.
\<close>

fun accumulate :: "real \<Rightarrow> real list \<Rightarrow> real list" where
  "accumulate acc [] = []"
| "accumulate acc (x # xs) = (acc + x) # accumulate (acc + x) xs"

definition random_choices :: "real \<Rightarrow> 'a list \<Rightarrow> real list \<Rightarrow> error + 'a" where
  "random_choices u population weights =
     (let cum_weights = accumulate 0 weights;
          n = length population
      in if length cum_weights \<noteq> n then Inl ValueError
         else if n = 0 then Inl IndexError
         else let total = last cum_weights
              in if total \<le> 0 then Inl ValueError
                 else py_get population
                        (length (filter (\<lambda>c. c \<le> u * total) (take (n - 1) cum_weights))))"

subsection \<open>Liquid style move selection\<close>

definition blitz_mode_moves :: "draws \<Rightarrow> move_info list \<Rightarrow> error + string" where
  "blitz_mode_moves d top_moves =
     (if blitz_u d < 0.8 then map_sum id Move (py_get top_moves 0)
      else if length top_moves > 1 then map_sum id Move (py_get top_moves 1)
      else map_sum id Move (py_get top_moves 0))"

text \<open>
  \<^verbatim>\<open>is_calm_move\<close> ends in \<^verbatim>\<open>piece and piece.piece_type in [...]\<close>, which is
  falsy when the from-square is empty.
\<close>

definition is_calm_move :: "world \<Rightarrow> chess_board \<Rightarrow> string \<Rightarrow> error + bool" where
  "is_calm_move w b move_uci =
     (case from_uci w move_uci of
        None \<Rightarrow> Inl ValueError
      | Some move \<Rightarrow>
          if is_check b \<or> is_capture b move then Inr False
          else (case piece_at b (from_square move) of
                  None \<Rightarrow> Inr False
                | Some piece \<Rightarrow> Inr (piece_type piece \<in> set [PAWN, KNIGHT, BISHOP])))"

text \<open>The loop of \<^verbatim>\<open>calm_flow_moves\<close> that collects \<^verbatim>\<open>solid_moves\<close>.\<close>

fun calm_flow_solid ::
  "world \<Rightarrow> chess_board \<Rightarrow> move_info list \<Rightarrow> move_info list \<Rightarrow> error + move_info list" where
  "calm_flow_solid w b solid_moves [] = Inr solid_moves"
| "calm_flow_solid w b solid_moves (move_info # rest) =
     (case is_calm_move w b (Move move_info) of
        Inl e \<Rightarrow> Inl e
      | Inr calm \<Rightarrow>
          calm_flow_solid w b (if calm then solid_moves @ [move_info] else solid_moves) rest)"

definition calm_flow_moves ::
  "draws \<Rightarrow> world \<Rightarrow> chess_board \<Rightarrow> move_info list \<Rightarrow> real \<Rightarrow> error + string" where
  "calm_flow_moves d w b top_moves time_pressure =
     (case calm_flow_solid w b [] top_moves of
        Inl e \<Rightarrow> Inl e
      | Inr solid_moves \<Rightarrow>
          map_sum id Move
            (if solid_moves \<noteq> [] \<and> solid_u d < 0.7
             then random_choice (solid_k d) (py_slice solid_moves 0 3)
             else if noise_u d < max 0.2 (time_pressure * 0.3)
                  then (if length top_moves > 3
                        then random_choice (noise_k d) (py_slice top_moves 1 4)
                        else py_get top_moves 0)
                  else py_get top_moves 0))"

text \<open>
  \<^verbatim>\<open>chess.square_distance\<close> is the larger of the file and the rank distance;
  the centre squares are e4 = 28, e5 = 36, d4 = 27, d5 = 35. In
  \<^verbatim>\<open>opponent_king and ...\<close> a king on square 0 is falsy, as a missing king is.
\<close>

definition square_distance :: "nat \<Rightarrow> nat \<Rightarrow> nat" where
  "square_distance a b =
     max (nat \<bar>int (a mod 8) - int (b mod 8)\<bar>) (nat \<bar>int (a div 8) - int (b div 8)\<bar>)"

definition attacks_important_square :: "chess_board \<Rightarrow> chess_move \<Rightarrow> bool" where
  "attacks_important_square b move =
     (let target = to_square move
      in if target \<in> set [28, 36, 27, 35] then True
         else (case king b (\<not> turn b) of
                 None \<Rightarrow> False
               | Some opponent_king \<Rightarrow>
                   if opponent_king \<noteq> 0 \<and> square_distance target opponent_king \<le> 2
                   then True else False))"

definition calculate_pressure_weight ::
  "world \<Rightarrow> chess_board \<Rightarrow> string \<Rightarrow> nat \<Rightarrow> error + real" where
  "calculate_pressure_weight w b move_uci rank =
     (let base_weight = 1.0 / (real rank + 1)
      in case from_uci w move_uci of
           None \<Rightarrow> Inl ValueError
         | Some move \<Rightarrow>
             let base_weight = (if is_check b then base_weight * 1.3 else base_weight);
                 base_weight = (if is_capture b move then base_weight * 1.2 else base_weight);
                 base_weight = (if attacks_important_square b move
                                then base_weight * 1.25 else base_weight)
             in Inr base_weight)"

text \<open>The loop of \<^verbatim>\<open>building_waves_moves\<close> over \<^verbatim>\<open>enumerate(top_moves)\<close>.\<close>

fun building_waves_weighted ::
  "world \<Rightarrow> chess_board \<Rightarrow> real \<Rightarrow> (move_info \<times> real) list \<Rightarrow> nat \<Rightarrow> move_info list
     \<Rightarrow> error + (move_info \<times> real) list" where
  "building_waves_weighted w b time_pressure weighted_moves i [] = Inr weighted_moves"
| "building_waves_weighted w b time_pressure weighted_moves i (move_info # rest) =
     (case calculate_pressure_weight w b (Move move_info) i of
        Inl e \<Rightarrow> Inl e
      | Inr weight \<Rightarrow>
          let weight = weight * (1.0 - time_pressure * 0.2)
          in building_waves_weighted w b time_pressure
               (weighted_moves @ [(move_info, weight)]) (Suc i) rest)"

text \<open>\<^verbatim>\<open>moves, weights = zip(*weighted_moves)\<close> raises \<^verbatim>\<open>ValueError\<close> on an empty list.\<close>

definition building_waves_moves ::
  "draws \<Rightarrow> world \<Rightarrow> chess_board \<Rightarrow> move_info list \<Rightarrow> real \<Rightarrow> error + string" where
  "building_waves_moves d w b top_moves time_pressure =
     (case building_waves_weighted w b time_pressure [] 0 top_moves of
        Inl e \<Rightarrow> Inl e
      | Inr weighted_moves \<Rightarrow>
          if weighted_moves = [] then Inl ValueError
          else let moves = map fst weighted_moves;
                   weights = map snd weighted_moves
               in map_sum id Move (random_choices (waves_u d) moves weights))"

definition crushing_tide_moves :: "draws \<Rightarrow> move_info list \<Rightarrow> real \<Rightarrow> error + string" where
  "crushing_tide_moves d top_moves time_pressure =
     (if tide_u d < 0.8 - (time_pressure * 0.3) then map_sum id Move (py_get top_moves 0)
      else if length top_moves > 2
           then map_sum id Move (random_choice (tide_k d) (py_slice top_moves 1 3))
           else map_sum id Move (py_get top_moves 0))"

text \<open>
  The two settings \<^verbatim>\<open>liquid_style_move_selection\<close> computes before it asks
  the engine: the skill level and the number of moves to request.
\<close>

definition selection_skill :: "draws \<Rightarrow> real \<Rightarrow> int" where
  "selection_skill d time_pressure =
     (if time_pressure > 0.7 then random_randint 16 18 (skill_k d)
      else random_randint 18 20 (skill_k d))"

definition selection_top_n :: "real \<Rightarrow> real \<Rightarrow> nat" where
  "selection_top_n time_pressure position_tension =
     (if time_pressure > 0.8 then 3
      else if position_tension > 0.7 then 6
      else 4)"

text \<open>
  \<^verbatim>\<open>liquid_style_move_selection\<close> sets the engine's skill level, so it
  returns the engine object with the result; \<open>Inr None\<close> is the \<^verbatim>\<open>None\<close> it
  returns when the engine suggests nothing. \<open>st\<close> is \<^verbatim>\<open>LIQUID_STYLE\<close>.
\<close>

definition liquid_style_move_selection ::
  "draws \<Rightarrow> world \<Rightarrow> chess_board \<Rightarrow> stockfish \<Rightarrow> real \<Rightarrow> liquid_style
     \<Rightarrow> stockfish \<times> (error + string option)" where
  "liquid_style_move_selection d w b s time_remaining st =
     (let time_pressure = get_time_pressure time_remaining (fullmove_number b);
          position_tension = get_positional_tension b;
          skill = selection_skill d time_pressure;
          s = s\<lparr>skill_level := skill\<rparr>;
          top_n = selection_top_n time_pressure position_tension;
          top_moves = get_top_moves w s top_n
      in if top_moves = [] then (s, Inr None)
         else if time_remaining < 30 then (s, map_sum id Some (blitz_mode_moves d top_moves))
         else if phase st = calm_flow
              then (s, map_sum id Some (calm_flow_moves d w b top_moves time_pressure))
         else if phase st = building_waves
              then (s, map_sum id Some (building_waves_moves d w b top_moves time_pressure))
         else (s, map_sum id Some (crushing_tide_moves d top_moves time_pressure)))"

subsection \<open>The game loop\<close>

text \<open>
  What the script prints is left out of the model, except the message chosen
  after the loop, which is the result of a run.

  \<^verbatim>\<open>make_move\<close> pushes the move on the board and then on the engine; either
  step can raise \<^verbatim>\<open>ValueError\<close>, the second after the board has changed.
\<close>

definition make_move :: "world \<Rightarrow> string \<Rightarrow> globals \<Rightarrow> error option \<times> globals" where
  "make_move w move_uci g =
     (case push_uci w (board g) move_uci of
        None \<Rightarrow> (Some ValueError, g)
      | Some b \<Rightarrow>
          let g = g\<lparr>board := b\<rparr>
          in if is_move_correct w (sf g) move_uci
             then (None, g\<lparr>sf := (sf g)\<lparr>sf_moves := sf_moves (sf g) @ [move_uci]\<rparr>\<rparr>)
             else (Some ValueError, g))"

text \<open>
  The state of a run: the globals, the number of clock readings and of engine
  turns so far, and the lines the opponent has yet to type (each as
  \<^verbatim>\<open>input(...).strip()\<close> returns it). Reading past the last line raises
  \<^verbatim>\<open>EOFError\<close>.
\<close>

record run =
  glob :: globals
  ticks :: nat
  turns :: nat
  inputs :: "string list"

definition str_lower :: "string \<Rightarrow> string" where
  "str_lower s =
     map (\<lambda>c. let n = (of_char c :: nat) in if 65 \<le> n \<and> n \<le> 90 then char_of (n + 32) else c) s"

text \<open>
  The engine's turn, the same in both loops. The flag of the result is
  \<open>False\<close> when the loop is left by \<^verbatim>\<open>break\<close> (no move suggested).
  \<^verbatim>\<open>time.sleep\<close> raises \<^verbatim>\<open>ValueError\<close> on a negative duration.
\<close>

definition engine_turn :: "world \<Rightarrow> run \<Rightarrow> error + (bool \<times> run)" where
  "engine_turn w r =
     (let g = glob r;
          d = rolls w (turns r);
          (s, best_move) = liquid_style_move_selection d w (board g) (sf g)
                             (engine_time_remaining g) (LIQUID_STYLE g);
          g = g\<lparr>sf := s\<rparr>;
          r = r\<lparr>glob := g, turns := Suc (turns r)\<rparr>
      in case best_move of
           Inl e \<Rightarrow> Inl e
         | Inr None \<Rightarrow> Inr (False, r)
         | Inr (Some best_move) \<Rightarrow>
             if best_move = [] then Inr (False, r)
             else let thinking_time = adaptive_thinking_time d (board g)
                                        (engine_time_remaining g) (pressure (LIQUID_STYLE g))
                  in if thinking_time < 0 then Inl ValueError
                     else (case make_move w best_move (snd (update_clock True (now w (ticks r)) g)) of
                             (Some e, g) \<Rightarrow> Inl e
                           | (None, g) \<Rightarrow>
                               Inr (True,
                                    r\<lparr>glob := g\<lparr>LIQUID_STYLE :=
                                                  update_liquid_momentum (board g) best_move
                                                    thinking_time (LIQUID_STYLE g)\<rparr>,
                                      ticks := Suc (ticks r)\<rparr>)))"

text \<open>
  The opponent's \<^verbatim>\<open>while True\<close> loop. A \<^verbatim>\<open>ValueError\<close> inside the
  \<^verbatim>\<open>try\<close> block, from parsing or from \<^verbatim>\<open>make_move\<close>, prompts again.
\<close>

fun opponent_input ::
  "world \<Rightarrow> globals \<Rightarrow> nat \<Rightarrow> string list \<Rightarrow> error + (globals \<times> nat \<times> string list)" where
  "opponent_input w g k [] = Inl EOFError"
| "opponent_input w g k (opp_move # rest) =
     (if str_lower opp_move = ''quit'' then Inl SystemExit
      else case from_uci w opp_move of
             None \<Rightarrow> opponent_input w g k rest
           | Some move_obj \<Rightarrow>
               if move_obj \<in> set (legal_moves (board g))
               then (case make_move w opp_move (snd (update_clock False (now w k) g)) of
                       (Some e, g) \<Rightarrow>
                         if e = ValueError then opponent_input w g (Suc k) rest else Inl e
                     | (None, g) \<Rightarrow>
                         Inr (g\<lparr>LIQUID_STYLE :=
                                  update_liquid_momentum (board g) opp_move 0 (LIQUID_STYLE g)\<rparr>,
                              Suc k, rest))
               else opponent_input w g k rest)"

definition opponent_turn :: "world \<Rightarrow> run \<Rightarrow> error + run" where
  "opponent_turn w r =
     (case opponent_input w (glob r) (ticks r) (inputs r) of
        Inl e \<Rightarrow> Inl e
      | Inr (g, k, rest) \<Rightarrow> Inr (r\<lparr>glob := g, ticks := k, inputs := rest\<rparr>))"

definition loop_condition :: "globals \<Rightarrow> bool" where
  "loop_condition g \<longleftrightarrow>
     \<not> is_game_over (board g) \<and> engine_time_remaining g > 0 \<and> opponent_time_remaining g > 0"

text \<open>
  The loop run when the user plays White: the engine moves first in each
  round. Every round that goes on reads at least one line, so the loop ends.
\<close>

function white_loop :: "world \<Rightarrow> run \<Rightarrow> error + run" where
  "white_loop w r =
     (if loop_condition (glob r)
      then (case engine_turn w r of
              Inl e \<Rightarrow> Inl e
            | Inr (go_on, r1) \<Rightarrow>
                if \<not> go_on then Inr r1
                else if is_game_over (board (glob r1)) \<or> engine_time_remaining (glob r1) \<le> 0
                     then Inr r1
                     else (case opponent_turn w r1 of
                             Inl e \<Rightarrow> Inl e
                           | Inr r2 \<Rightarrow> white_loop w r2))
      else Inr r)"
  by pat_completeness auto
termination
proof (relation "measure (\<lambda>(w, r). length (inputs r))")
  show "wf (measure (\<lambda>(w :: world, r). length (inputs r)))"
    by simp
next
  fix w :: world and r :: run and x and go_on r1 r2
  assume e: "engine_turn w r = Inr x" "(go_on, r1) = x"
    and o: "opponent_turn w r1 = Inr r2"
  have shorter: "length rest < length ins"
    if "opponent_input w g k ins = Inr (g', k', rest)" for g k ins g' k' rest
    using that
    by (induction ins arbitrary: g k)
       (auto split: if_splits option.splits prod.splits, fastforce+)
  have "inputs r1 = inputs r"
    using e
    by (auto simp: engine_turn_def Let_def
             split: prod.splits sum.splits option.splits if_splits)
  moreover have "length (inputs r2) < length (inputs r1)"
    using o shorter
    by (auto simp: opponent_turn_def split: sum.splits prod.splits)
  ultimately show "((w, r2), (w, r)) \<in> measure (\<lambda>(w, r). length (inputs r))"
    by simp
qed

text \<open>The loop run when the user plays Black: the opponent moves first.\<close>

function black_loop :: "world \<Rightarrow> run \<Rightarrow> error + run" where
  "black_loop w r =
     (if loop_condition (glob r)
      then (case opponent_turn w r of
              Inl e \<Rightarrow> Inl e
            | Inr r1 \<Rightarrow>
                if is_game_over (board (glob r1)) \<or> opponent_time_remaining (glob r1) \<le> 0
                then Inr r1
                else (case engine_turn w r1 of
                        Inl e \<Rightarrow> Inl e
                      | Inr (go_on, r2) \<Rightarrow>
                          if \<not> go_on then Inr r2 else black_loop w r2))
      else Inr r)"
  by pat_completeness auto
termination
proof (relation "measure (\<lambda>(w, r). length (inputs r))")
  show "wf (measure (\<lambda>(w :: world, r). length (inputs r)))"
    by simp
next
  fix w :: world and r :: run and r1 x and go_on r2
  assume o: "opponent_turn w r = Inr r1"
    and e: "engine_turn w r1 = Inr x" "(go_on, r2) = x"
  have shorter: "length rest < length ins"
    if "opponent_input w g k ins = Inr (g', k', rest)" for g k ins g' k' rest
    using that
    by (induction ins arbitrary: g k)
       (auto split: if_splits option.splits prod.splits, fastforce+)
  have "inputs r2 = inputs r1"
    using e
    by (auto simp: engine_turn_def Let_def
             split: prod.splits sum.splits option.splits if_splits)
  moreover have "length (inputs r1) < length (inputs r)"
    using o shorter
    by (auto simp: opponent_turn_def split: sum.splits prod.splits)
  ultimately show "((w, r2), (w, r)) \<in> measure (\<lambda>(w, r). length (inputs r))"
    by simp
qed

text \<open>The loop equations are unfolded by hand, one round at a time.\<close>

declare white_loop.simps [simp del] black_loop.simps [simp del]

text \<open>The message printed after the loop, chosen by the first test that holds.\<close>

datatype message =
  LiquidOutOfTime | OpponentOutOfTime | CrushingTideMate | FlowingCheckmate
  | StillWaters | Evaporated | FlowStagnated | GameEnded

definition game_over_message :: "globals \<Rightarrow> message" where
  "game_over_message g =
     (if engine_time_remaining g \<le> 0 then LiquidOutOfTime
      else if opponent_time_remaining g \<le> 0 then OpponentOutOfTime
      else if is_checkmate (board g)
           then (if pressure (LIQUID_STYLE g) > 0.7 then CrushingTideMate else FlowingCheckmate)
      else if is_stalemate (board g) then StillWaters
      else if is_insufficient_material (board g) then Evaporated
      else if is_fifty_moves (board g) then FlowStagnated
      else GameEnded)"

text \<open>
  The script from the main loop on: the loop for the user's colour, then the
  game-over message. An exception ends the run with no message.
\<close>

definition main_game :: "world \<Rightarrow> bool \<Rightarrow> run \<Rightarrow> error + message" where
  "main_game w player_is_white r =
     (case (if player_is_white then white_loop w r else black_loop w r) of
        Inl e \<Rightarrow> Inl e
      | Inr r' \<Rightarrow> Inr (game_over_message (glob r')))"

text \<open>
  The globals at the start, for the initial board \<open>b\<close> and the first clock
  reading \<open>t\<close>.
\<close>

definition initial_globals :: "chess_board \<Rightarrow> real \<Rightarrow> globals" where
  "initial_globals b t =
     \<lparr>board = b, sf = \<lparr>skill_level = 20, sf_moves = []\<rparr>,
      engine_time_remaining = GAME_DURATION, opponent_time_remaining = GAME_DURATION,
      last_move_time = t, LIQUID_STYLE = initial_style\<rparr>"

subsection \<open>Sample data\<close>

text \<open>
  The starting position as the program sees it, a middlegame position with
  forty legal moves, and one outcome of the random module.
\<close>

definition back_rank :: "piece_type list" where
  "back_rank = [ROOK, KNIGHT, BISHOP, QUEEN, KING, BISHOP, KNIGHT, ROOK]"

definition start_board :: chess_board where
  "start_board =
     \<lparr>fullmove_number = 1, turn = True,
      legal_moves =
        map (\<lambda>i. \<lparr>from_square = 8 + i, to_square = 16 + i, promotion = None\<rparr>) [0..<8]
        @ map (\<lambda>i. \<lparr>from_square = 8 + i, to_square = 24 + i, promotion = None\<rparr>) [0..<8]
        @ [\<lparr>from_square = 1, to_square = 16, promotion = None\<rparr>,
           \<lparr>from_square = 1, to_square = 18, promotion = None\<rparr>,
           \<lparr>from_square = 6, to_square = 21, promotion = None\<rparr>,
           \<lparr>from_square = 6, to_square = 23, promotion = None\<rparr>],
      is_check = False, is_capture = (\<lambda>move. False),
      piece_at = (\<lambda>sq. if sq < 16 \<or> (48 \<le> sq \<and> sq < 64)
                        then Some \<lparr>piece_type = (if 8 \<le> sq \<and> sq < 56 then PAWN
                                                  else back_rank ! (sq mod 8)),
                                   color = (sq < 16)\<rparr>
                        else None),
      king = (\<lambda>c. Some (if c then 4 else 60)),
      is_game_over = False, is_checkmate = False, is_stalemate = False,
      is_insufficient_material = False, is_fifty_moves = False\<rparr>"

definition busy_board :: chess_board where
  "busy_board =
     start_board\<lparr>fullmove_number := 18,
       legal_moves :=
         map (\<lambda>i. \<lparr>from_square = i, to_square = i + 8, promotion = None\<rparr>) [0..<40]\<rparr>"

definition even_draws :: draws where
  "even_draws =
     \<lparr>skill_k = 1, blitz_u = 0.5, solid_u = 0.5, solid_k = 1, noise_u = 0.5, noise_k = 1,
      waves_u = 0.5, tide_u = 0.5, tide_k = 1, base_u = 0.5, trouble_u = 0.5\<rparr>"

definition noisy_draws :: draws where
  "noisy_draws = even_draws\<lparr>noise_u := 0.1\<rparr>"

definition check_board :: chess_board where
  "check_board = busy_board\<lparr>is_check := True\<rparr>"

definition candidate :: "string \<Rightarrow> int \<Rightarrow> move_info" where
  "candidate uci cp = \<lparr>Move = uci, Centipawn = Some cp, Mate = None\<rparr>"

definition opening_candidates :: "move_info list" where
  "opening_candidates =
     [candidate ''e2e4'' 35, candidate ''d2d4'' 30, candidate ''g1f3'' 28,
      candidate ''c2c4'' 25, candidate ''b1c3'' 12, candidate ''e2e3'' 10]"

definition reply_candidates :: "move_info list" where
  "reply_candidates =
     [candidate ''e7e5'' (- 30), candidate ''c7c5'' (- 32), candidate ''e7e6'' (- 40)]"

definition opening_moves :: "(string \<times> chess_move) list" where
  "opening_moves =
     [(''e2e4'', \<lparr>from_square = 12, to_square = 28, promotion = None\<rparr>),
      (''d2d4'', \<lparr>from_square = 11, to_square = 27, promotion = None\<rparr>),
      (''g1f3'', \<lparr>from_square = 6, to_square = 21, promotion = None\<rparr>),
      (''c2c4'', \<lparr>from_square = 10, to_square = 26, promotion = None\<rparr>),
      (''b1c3'', \<lparr>from_square = 1, to_square = 18, promotion = None\<rparr>),
      (''e2e3'', \<lparr>from_square = 12, to_square = 20, promotion = None\<rparr>),
      (''e7e5'', \<lparr>from_square = 52, to_square = 36, promotion = None\<rparr>),
      (''c7c5'', \<lparr>from_square = 50, to_square = 34, promotion = None\<rparr>),
      (''e7e6'', \<lparr>from_square = 52, to_square = 44, promotion = None\<rparr>)]"

definition black_replies :: "chess_move list" where
  "black_replies = map snd (drop 6 opening_moves)"

text \<open>
  A small world for a given clock: it parses the moves of the table above,
  answers White's moves with a quiet position and Black's with checkmate,
  suggests the candidates above for the side to move, and accepts every move.
\<close>

definition sample_world :: "(nat \<Rightarrow> real) \<Rightarrow> world" where
  "sample_world clock =
     \<lparr>from_uci = map_of opening_moves,
      push_uci = (\<lambda>b move_uci.
                    if turn b then Some (b\<lparr>turn := False, legal_moves := black_replies\<rparr>)
                    else Some (b\<lparr>turn := True, legal_moves := [], is_check := True,
                                 is_game_over := True, is_checkmate := True\<rparr>)),
      get_top_moves = (\<lambda>s n. take n (if even (length (sf_moves s)) then opening_candidates
                                       else reply_candidates)),
      is_move_correct = (\<lambda>s move_uci. True),
      now = clock,
      rolls = (\<lambda>n. even_draws)\<rparr>"

definition fresh_stockfish :: stockfish where
  "fresh_stockfish = \<lparr>skill_level = 20, sf_moves = []\<rparr>"

definition after_white :: chess_board where
  "after_white = start_board\<lparr>turn := False, legal_moves := black_replies\<rparr>"

definition after_black :: chess_board where
  "after_black = after_white\<lparr>turn := True, legal_moves := [], is_check := True,
                     is_game_over := True, is_checkmate := True\<rparr>"

text \<open>
  A run from the start of a game with the given lines to come, and a run whose
  engine clock stands at zero in a checkmate position.
\<close>

definition first_run :: "string list \<Rightarrow> run" where
  "first_run lines =
     \<lparr>glob = initial_globals start_board 0, ticks = 0, turns = 0, inputs = lines\<rparr>"

definition flagged_run :: run where
  "flagged_run =
     \<lparr>glob = (initial_globals after_black 0)\<lparr>engine_time_remaining := 0\<rparr>,
      ticks = 0, turns = 0, inputs = []\<rparr>"

section \<open>Properties\<close>

subsection \<open>Clock\<close>

text \<open>
  C1. A tick should charge the elapsed time to the party that just moved. The
  engine's turn calls \<^verbatim>\<open>update_clock(is_engine_move=True)\<close> after the engine
  has thought and slept; at the start of a game, with five seconds elapsed, the
  call leaves the engine's 600 seconds untouched and charges the opponent.
\<close>

theorem update_clock_engine_move_at_start:
  "engine_time_remaining (snd (update_clock True 5 (initial_globals start_board 0))) = 600
   \<and> opponent_time_remaining (snd (update_clock True 5 (initial_globals start_board 0))) = 595"
  by (simp add: update_clock_def initial_globals_def GAME_DURATION_def)

text \<open>
  C4. The time pressure is 1.0 from move 40 on, lies between 0 and 1 for
  non-negative arguments, and is 0 for the full 600 seconds at move 0.
\<close>

theorem time_pressure_range:
  "(40 \<le> move_number \<longrightarrow> get_time_pressure time_remaining move_number = 1.0)
   \<and> (0 \<le> time_remaining \<and> 0 \<le> move_number
        \<longrightarrow> 0 \<le> get_time_pressure time_remaining move_number
            \<and> get_time_pressure time_remaining move_number \<le> 1)
   \<and> GAME_DURATION = 600 \<and> get_time_pressure 600 0 = 0"
  by (simp add: get_time_pressure_def GAME_DURATION_def Let_def)

theorem time_pressure_range_witness:
  "(40::int) \<le> 45 \<and> (0::real) \<le> 300 \<and> (0::int) \<le> 45 \<and> get_time_pressure 300 45 = 1.0
   \<and> 0 \<le> get_time_pressure 300 45 \<and> get_time_pressure 300 45 \<le> 1"
  using time_pressure_range [of 45 300] by simp

subsection \<open>Thinking time\<close>

text \<open>
  C7. With more than three seconds left, the thinking time is at least 0.3
  seconds and at most a tenth of the remaining time, whatever the pressure and
  the random draws.
\<close>

theorem thinking_time_bounds:
  "3 < time_remaining \<Longrightarrow>
   0.3 \<le> adaptive_thinking_time d b time_remaining p
   \<and> adaptive_thinking_time d b time_remaining p \<le> 0.1 * time_remaining"
  by (simp add: adaptive_thinking_time_def Let_def)

theorem thinking_time_bounds_witness:
  "(3::real) < 600
   \<and> 0.3 \<le> adaptive_thinking_time even_draws start_board 600 0
   \<and> adaptive_thinking_time even_draws start_board 600 0 \<le> 0.1 * 600"
  using thinking_time_bounds [of 600 even_draws start_board 0] by simp

text \<open>
  C10, as claimed: for every remaining time above 0 and at most 3 the thinking
  time falls below the floor of 0.3 seconds. With exactly three seconds left
  the value is the cap, a tenth of three seconds, and that is not below 0.3.
\<close>

theorem thinking_time_at_three_counterexample:
  "(0::real) < 3 \<and> (3::real) \<le> 3
   \<and> adaptive_thinking_time even_draws start_board 3 0 = 0.1 * 3
   \<and> \<not> adaptive_thinking_time even_draws start_board 3 0 < 0.3"
  by (simp add: adaptive_thinking_time_def Let_def)

text \<open>
  C10, amended: with at most three seconds left (and more than none), the
  thinking time is exactly the cap, the product of the remaining time and 0.1:
  the cap is applied after the floor, so the floor of 0.3 seconds is not
  guaranteed for such inputs.
\<close>

theorem thinking_time_low_clock:
  "0 < time_remaining \<Longrightarrow> time_remaining \<le> 3 \<Longrightarrow>
   adaptive_thinking_time d b time_remaining p = time_remaining * 0.1"
  by (simp add: adaptive_thinking_time_def Let_def)

theorem thinking_time_low_clock_witness:
  "(0::real) < 2 \<and> (2::real) \<le> 3
   \<and> adaptive_thinking_time even_draws start_board 2 0 = 2 * 0.1"
  using thinking_time_low_clock [of 2 even_draws start_board 0] by simp

subsection \<open>Pressure state\<close>

lemma flow_momentum_update:
  "flow_momentum (update_liquid_momentum b move_uci time_used st)
     = min 1 (flow_momentum st + 0.06)"
  by (simp add: update_liquid_momentum_def Let_def)

lemma pressure_update:
  "pressure (update_liquid_momentum b move_uci time_used st)
     = min 1 (flow_momentum st + 0.06) * 0.6
       + real (length (legal_moves b)) / 20 * 0.3
       + min 1 (time_used / 5) * 0.1"
  by (simp add: update_liquid_momentum_def Let_def)

text \<open>
  C2, as claimed: recording an opponent move leaves the momentum unchanged.
  The opponent's turn calls \<^verbatim>\<open>update_liquid_momentum(board, opp_move, 0)\<close>,
  which has no notion of whose move it records; from the initial style the
  momentum becomes 0.06.
\<close>

theorem momentum_opponent_move_counterexample:
  "flow_momentum (update_liquid_momentum start_board ''e7e5'' 0 initial_style)
     \<noteq> flow_momentum initial_style"
  by (simp add: update_liquid_momentum_def initial_style_def Let_def)

text \<open>
  C2, amended: every recorded move, the engine's or the opponent's, sets the
  momentum to \<open>min(1.0, previous + 0.06)\<close>; the momentum never exceeds 1.0 and,
  from a previous value of at most 1.0, never decreases.
\<close>

theorem momentum_every_move:
  "flow_momentum (update_liquid_momentum b move_uci time_used st)
     = min 1.0 (flow_momentum st + 0.06)
   \<and> flow_momentum (update_liquid_momentum b move_uci time_used st) \<le> 1.0
   \<and> (flow_momentum st \<le> 1.0
        \<longrightarrow> flow_momentum st \<le> flow_momentum (update_liquid_momentum b move_uci time_used st))"
  by (simp add: update_liquid_momentum_def Let_def)

theorem momentum_every_move_witness:
  "flow_momentum initial_style \<le> 1.0
   \<and> flow_momentum (update_liquid_momentum start_board ''e7e5'' 0 initial_style) = 0.06
   \<and> flow_momentum initial_style
        \<le> flow_momentum (update_liquid_momentum start_board ''e7e5'' 0 initial_style)"
  using momentum_every_move [of start_board "''e7e5''" 0 initial_style]
  by (simp add: initial_style_def)

text \<open>
  C3, as claimed: the pressure is capped at 1.0. With full momentum, forty
  legal moves and five seconds used, the pressure is 1.3.
\<close>

theorem pressure_uncapped_counterexample:
  "pressure (update_liquid_momentum busy_board ''e2e4'' 5 (initial_style\<lparr>flow_momentum := 1.0\<rparr>))
     = 1.3
   \<and> \<not> pressure (update_liquid_momentum busy_board ''e2e4'' 5
                    (initial_style\<lparr>flow_momentum := 1.0\<rparr>)) \<le> 1.0"
  by (simp add: update_liquid_momentum_def initial_style_def busy_board_def Let_def)

text \<open>
  C3, amended: for a non-negative time used, the pressure is the weighted sum
  \<open>0.6 * momentum + 0.3 * (legal move count / 20) + 0.1 * clamp(time_used / 5, 0, 1)\<close>
  of the updated momentum, with no cap; it is non-negative when the previous
  momentum is.
\<close>

theorem pressure_weighted_sum:
  "0 \<le> time_used \<Longrightarrow>
   pressure (update_liquid_momentum b move_uci time_used st)
     = 0.6 * flow_momentum (update_liquid_momentum b move_uci time_used st)
       + 0.3 * (real (length (legal_moves b)) / 20)
       + 0.1 * max 0 (min 1 (time_used / 5))
   \<and> (0 \<le> flow_momentum st \<longrightarrow> 0 \<le> pressure (update_liquid_momentum b move_uci time_used st))"
proof -
  assume t: "0 \<le> time_used"
  then have clamp: "max 0 (min 1 (time_used / 5)) = min 1 (time_used / 5)"
    by simp
  have n: "0 \<le> real (length (legal_moves b)) / 20 * 0.3"
    by simp
  have e: "0 \<le> min 1 (time_used / 5) * 0.1"
    using t by simp
  have m: "0 \<le> min 1 (flow_momentum st + 0.06) * 0.6" if "0 \<le> flow_momentum st"
    using that by simp
  show ?thesis
    unfolding pressure_update flow_momentum_update clamp
    using n e m by (auto simp: algebra_simps)
qed

theorem pressure_weighted_sum_witness:
  "(0::real) \<le> 2 \<and> 0 \<le> flow_momentum initial_style
   \<and> pressure (update_liquid_momentum start_board ''e2e4'' 2 initial_style) = 0.376"
  using pressure_weighted_sum [of 2 start_board "''e2e4''" initial_style]
  by (simp add: flow_momentum_update initial_style_def start_board_def)

subsection \<open>Facts about the sample data\<close>

lemma even_draws_fields:
  "skill_k even_draws = 1" "blitz_u even_draws = 0.5" "solid_u even_draws = 0.5"
  "solid_k even_draws = 1" "noise_u even_draws = 0.5" "noise_k even_draws = 1"
  "base_u even_draws = 0.5" "trouble_u even_draws = 0.5"
  by (simp_all add: even_draws_def)

lemma noisy_draws_fields:
  "solid_u noisy_draws = 0.5" "noise_u noisy_draws = 0.1" "noise_k noisy_draws = 1"
  by (simp_all add: noisy_draws_def even_draws_def)

lemma initial_style_fields:
  "pressure initial_style = 0" "flow_momentum initial_style = 0"
  "phase initial_style = calm_flow"
  by (simp_all add: initial_style_def)

lemma sample_world_fields:
  "from_uci (sample_world clock) = map_of opening_moves"
  "push_uci (sample_world clock) b move_uci
     = (if turn b then Some (b\<lparr>turn := False, legal_moves := black_replies\<rparr>)
        else Some (b\<lparr>turn := True, legal_moves := [], is_check := True,
                     is_game_over := True, is_checkmate := True\<rparr>))"
  "get_top_moves (sample_world clock) s n
     = take n (if even (length (sf_moves s)) then opening_candidates else reply_candidates)"
  "is_move_correct (sample_world clock) s move_uci"
  "now (sample_world clock) = clock"
  "rolls (sample_world clock) n = even_draws"
  by (simp_all add: sample_world_def)

lemma sample_world_accepts:
  "\<not> ((\<exists>b m. push_uci (sample_world clock) b m = None)
       \<or> (\<exists>s m. \<not> is_move_correct (sample_world clock) s m))"
  by (simp add: sample_world_fields)

lemma start_board_fields:
  "fullmove_number start_board = 1" "turn start_board" "\<not> is_check start_board"
  "\<not> is_capture start_board move" "\<not> is_game_over start_board"
  "is_checkmate start_board = False"
  by (simp_all add: start_board_def)

lemma after_white_fields:
  "\<not> turn after_white" "\<not> is_game_over after_white"
  by (simp_all add: after_white_def start_board_fields)

lemma after_black_fields:
  "is_game_over after_black" "is_checkmate after_black"
  by (simp_all add: after_black_def)

lemma start_board_piece_count:
  "length (filter (\<lambda>sq. piece_at start_board sq \<noteq> None) [0..<64]) = 32"
  unfolding start_board_def by code_simp

lemma start_board_tension: "get_positional_tension start_board = 0.6"
  using start_board_piece_count
  by (simp add: get_positional_tension_def list_ex_iff start_board_def)

lemma sample_moves_legal:
  "map_of opening_moves ''e7e5''
     = Some \<lparr>from_square = 52, to_square = 36, promotion = None\<rparr>"
  "\<lparr>from_square = 52, to_square = 36, promotion = None\<rparr> \<in> set (legal_moves after_white)"
  "map_of opening_moves ''e2e4''
     = Some \<lparr>from_square = 12, to_square = 28, promotion = None\<rparr>"
  "\<lparr>from_square = 12, to_square = 28, promotion = None\<rparr> \<in> set (legal_moves start_board)"
  by (simp_all add: opening_moves_def after_white_def black_replies_def start_board_def)

lemma sample_lines_not_quit:
  "str_lower ''e7e5'' \<noteq> ''quit''" "str_lower ''e2e4'' \<noteq> ''quit''"
  by (simp_all add: str_lower_def)

lemma first_run_loop_condition: "loop_condition (glob (first_run lines))"
  by (simp add: loop_condition_def first_run_def initial_globals_def GAME_DURATION_def
        start_board_fields)

subsection \<open>Move selector\<close>

lemma py_slice_1_4: "3 < length xs \<Longrightarrow> length (py_slice xs 1 4) = 3"
  by (simp add: py_slice_def)

lemma py_slice_subset: "set (py_slice xs i j) \<subseteq> set xs"
  unfolding py_slice_def
  by (meson set_take_subset set_drop_subset subset_trans)

lemma calm_flow_solid_none:
  "\<forall>mi \<in> set xs. is_calm_move w b (Move mi) = Inr False \<Longrightarrow>
   calm_flow_solid w b acc xs = Inr acc"
  by (induction xs arbitrary: acc) auto

lemma selection_blitz_no_error:
  "time_remaining < 30 \<Longrightarrow>
   snd (liquid_style_move_selection d w b s time_remaining st) \<noteq> Inl e"
  by (auto simp: liquid_style_move_selection_def blitz_mode_moves_def py_get_def Let_def)

lemma blitz_single_candidate:
  "length top_moves = 1 \<Longrightarrow> blitz_mode_moves d top_moves = Inr (Move (top_moves ! 0))"
  by (simp add: blitz_mode_moves_def py_get_def)

text \<open>
  C6. With less than 30 seconds left and at least two candidates from the
  engine, the selector returns the top-ranked candidate when the draw of
  \<^verbatim>\<open>random.random()\<close> is below 0.8 and the second-ranked one otherwise, so
  never a lower-ranked one. The candidates are those the engine returns for the
  skill level and the number of moves the selector has just chosen.
\<close>

theorem blitz_top_two:
  assumes "time_remaining < 30"
    and "time_pressure = get_time_pressure time_remaining (fullmove_number b)"
    and "s' = s\<lparr>skill_level := selection_skill d time_pressure\<rparr>"
    and "top_moves
           = get_top_moves w s' (selection_top_n time_pressure (get_positional_tension b))"
    and "2 \<le> length top_moves"
  shows "liquid_style_move_selection d w b s time_remaining st
           = (s', Inr (Some (Move (top_moves ! (if blitz_u d < 0.8 then 0 else 1)))))"
proof -
  have "top_moves \<noteq> []"
    using assms(5) by auto
  then show ?thesis
    using assms
    by (simp add: liquid_style_move_selection_def blitz_mode_moves_def py_get_def Let_def)
qed

theorem blitz_top_two_witness:
  "(20::real) < 30
   \<and> 2 \<le> length (take 3 opening_candidates)
   \<and> liquid_style_move_selection even_draws (sample_world (\<lambda>k. 0)) start_board
        fresh_stockfish 20 initial_style
       = (fresh_stockfish\<lparr>skill_level := 17\<rparr>, Inr (Some ''e2e4''))"
proof -
  have low: "(20::real) < 30"
    by simp
  have tp: "113 / 117 = get_time_pressure 20 (fullmove_number start_board)"
    by (simp add: get_time_pressure_def GAME_DURATION_def start_board_fields)
  have sk: "fresh_stockfish\<lparr>skill_level := 17\<rparr>
              = fresh_stockfish\<lparr>skill_level := selection_skill even_draws (113 / 117)\<rparr>"
    by (simp add: selection_skill_def random_randint_def even_draws_fields)
  have tm: "take 3 opening_candidates
              = get_top_moves (sample_world (\<lambda>k. 0)) (fresh_stockfish\<lparr>skill_level := 17\<rparr>)
                  (selection_top_n (113 / 117) (get_positional_tension start_board))"
    by (simp add: selection_top_n_def sample_world_fields fresh_stockfish_def)
  have len: "2 \<le> length (take 3 opening_candidates)"
    by (simp add: opening_candidates_def)
  show ?thesis
    using blitz_top_two [OF low tp sk tm len, of initial_style] low len
    by (simp add: even_draws_fields opening_candidates_def candidate_def)
qed

text \<open>
  C8. In the calm phase, when the list of candidates is not empty and none of
  them is a calm move, the set of solid moves is empty and the selector takes
  the noise branch: it returns a candidate from the list (one of ranks 2 to 4
  or the first), and raises nothing.
\<close>

theorem calm_no_solid:
  assumes "top_moves \<noteq> []"
    and "\<forall>mi \<in> set top_moves. is_calm_move w b (Move mi) = Inr False"
  shows "calm_flow_moves d w b top_moves time_pressure
           = Inr (Move (if noise_u d < max 0.2 (time_pressure * 0.3) \<and> 3 < length top_moves
                        then py_slice top_moves 1 4 ! (noise_k d mod 3)
                        else top_moves ! 0))
         \<and> (\<exists>mi \<in> set top_moves. calm_flow_moves d w b top_moves time_pressure = Inr (Move mi))"
proof -
  have solid: "calm_flow_solid w b [] top_moves = Inr []"
    using assms(2) by (rule calm_flow_solid_none)
  have eq: "calm_flow_moves d w b top_moves time_pressure
           = Inr (Move (if noise_u d < max 0.2 (time_pressure * 0.3) \<and> 3 < length top_moves
                        then py_slice top_moves 1 4 ! (noise_k d mod 3)
                        else top_moves ! 0))"
    using assms(1) py_slice_1_4 [of top_moves]
    by (auto simp: calm_flow_moves_def solid py_get_def random_choice_def)
  have "py_slice top_moves 1 4 ! (noise_k d mod 3) \<in> set top_moves" if "3 < length top_moves"
  proof -
    have "py_slice top_moves 1 4 ! (noise_k d mod 3) \<in> set (py_slice top_moves 1 4)"
      using py_slice_1_4 [OF that] by (intro nth_mem) simp
    then show ?thesis
      using py_slice_subset [of top_moves 1 4] by auto
  qed
  moreover have "top_moves ! 0 \<in> set top_moves"
    using assms(1) by simp
  ultimately show ?thesis
    unfolding eq by auto
qed

lemma check_board_not_calm:
  "\<forall>mi \<in> set (take n opening_candidates).
     is_calm_move (sample_world clock) check_board (Move mi) = Inr False"
proof -
  have "is_calm_move (sample_world clock) check_board (Move mi) = Inr False"
    if "mi \<in> set opening_candidates" for mi
    using that
    by (auto simp: opening_candidates_def candidate_def is_calm_move_def sample_world_fields
          opening_moves_def check_board_def)
  then show ?thesis
    by (meson in_set_takeD)
qed

theorem calm_no_solid_witness:
  "take 4 opening_candidates \<noteq> []
   \<and> list_all (\<lambda>mi. is_calm_move (sample_world (\<lambda>k. 0)) check_board (Move mi) = Inr False)
         (take 4 opening_candidates)
   \<and> calm_flow_moves noisy_draws (sample_world (\<lambda>k. 0)) check_board
        (take 4 opening_candidates) 0
       = Inr ''g1f3''"
proof -
  have ne: "take 4 opening_candidates \<noteq> []"
    by (simp add: opening_candidates_def)
  show ?thesis
    using calm_no_solid [OF ne check_board_not_calm [of 4 "\<lambda>k. 0"],
                         where d = noisy_draws and time_pressure = 0]
      ne check_board_not_calm [of 4 "\<lambda>k. 0"]
    by (simp add: noisy_draws_fields opening_candidates_def candidate_def py_slice_def
          list_all_iff)
qed

text \<open>
  C9. In the noise branch of the calm phase (no solid move, or the draw for
  the solid moves at 0.7 or above), a list of one to three candidates yields
  the top-ranked candidate whatever the noise draw is; a candidate of ranks 2
  to 4 is picked only from a list of at least four, when the noise draw is
  below \<open>max(0.2, 0.3 * time_pressure)\<close>.
\<close>

theorem calm_noise_short_list:
  assumes "top_moves \<noteq> []"
    and "calm_flow_solid w b [] top_moves = Inr solid_moves"
    and "\<not> (solid_moves \<noteq> [] \<and> solid_u d < 0.7)"
  shows "(length top_moves \<le> 3
            \<longrightarrow> calm_flow_moves d w b top_moves time_pressure = Inr (Move (top_moves ! 0)))
         \<and> calm_flow_moves d w b top_moves time_pressure
             = Inr (Move (if 4 \<le> length top_moves \<and> noise_u d < max 0.2 (time_pressure * 0.3)
                          then py_slice top_moves 1 4 ! (noise_k d mod 3)
                          else top_moves ! 0))"
  using assms py_slice_1_4 [of top_moves]
  by (auto simp: calm_flow_moves_def py_get_def random_choice_def)

theorem calm_noise_short_list_witness:
  "take 3 opening_candidates \<noteq> []
   \<and> calm_flow_solid (sample_world (\<lambda>k. 0)) check_board [] (take 3 opening_candidates) = Inr []
   \<and> \<not> (([] :: move_info list) \<noteq> [] \<and> solid_u noisy_draws < 0.7)
   \<and> length (take 3 opening_candidates) \<le> 3
   \<and> calm_flow_moves noisy_draws (sample_world (\<lambda>k. 0)) check_board
        (take 3 opening_candidates) 0
       = Inr ''e2e4''"
proof -
  have ne: "take 3 opening_candidates \<noteq> []"
    by (simp add: opening_candidates_def)
  have solid: "calm_flow_solid (sample_world (\<lambda>k. 0)) check_board []
                 (take 3 opening_candidates) = Inr []"
    using check_board_not_calm [of 3 "\<lambda>k. 0"] by (rule calm_flow_solid_none)
  have noise: "\<not> (([] :: move_info list) \<noteq> [] \<and> solid_u noisy_draws < 0.7)"
    by simp
  show ?thesis
    using calm_noise_short_list [OF ne solid noise, where time_pressure = 0] ne solid
    by (simp add: opening_candidates_def candidate_def)
qed

subsection \<open>Game loop\<close>

lemma white_loop_exit: "\<not> loop_condition (glob r) \<Longrightarrow> white_loop w r = Inr r"
  by (simp add: white_loop.simps [of w r])

lemma black_loop_exit: "\<not> loop_condition (glob r) \<Longrightarrow> black_loop w r = Inr r"
  by (simp add: black_loop.simps [of w r])

lemma out_of_time_message:
  "engine_time_remaining g \<le> 0 \<Longrightarrow> game_over_message g = LiquidOutOfTime"
  by (simp add: game_over_message_def)

lemma make_move_engine_time:
  "engine_time_remaining (snd (make_move w move_uci g)) = engine_time_remaining g"
  by (simp add: make_move_def Let_def split: option.splits)

lemma make_move_error:
  "make_move w move_uci g = (Some e, g') \<Longrightarrow>
   e = ValueError
   \<and> ((\<exists>b. push_uci w b move_uci = None) \<or> (\<exists>s. \<not> is_move_correct w s move_uci))"
  by (auto simp: make_move_def Let_def split: option.splits if_splits)

lemma update_clock_engine_move_time:
  "engine_time_remaining (snd (update_clock True t g)) = engine_time_remaining g"
  by (simp add: update_clock_def Let_def)

text \<open>The engine's turn never changes the engine's own clock.\<close>

lemma engine_turn_engine_time:
  assumes "engine_turn w r = Inr (go_on, r')"
  shows "engine_time_remaining (glob r') = engine_time_remaining (glob r)"
proof -
  have "engine_time_remaining g' = engine_time_remaining (glob r)"
    if "make_move w m (snd (update_clock True t (glob r\<lparr>sf := s\<rparr>))) = (eo, g')"
    for m t s eo g'
    using make_move_engine_time [of w m "snd (update_clock True t (glob r\<lparr>sf := s\<rparr>))"] that
    by (simp add: update_clock_engine_move_time)
  then show ?thesis
    using assms
    by (auto simp: engine_turn_def Let_def
             split: prod.splits sum.splits option.splits if_splits)
qed

lemma thinking_time_at_zero: "adaptive_thinking_time d b 0 p = 0"
  by (simp add: adaptive_thinking_time_def Let_def uniform_def)

text \<open>
  With the engine's clock at zero the selector is in blitz mode and the
  thinking time is zero, so the engine's turn can only fail in
  \<^verbatim>\<open>make_move\<close>, when a collaborator rejects the move.
\<close>

lemma engine_turn_error_at_zero:
  assumes "engine_time_remaining (glob r) = 0"
    and "engine_turn w r = Inl e"
  shows "e = ValueError
         \<and> ((\<exists>b m. push_uci w b m = None) \<or> (\<exists>s m. \<not> is_move_correct w s m))"
proof -
  obtain s res where sel:
    "liquid_style_move_selection (rolls w (turns r)) w (board (glob r)) (sf (glob r)) 0
       (LIQUID_STYLE (glob r)) = (s, res)"
    by (cases "liquid_style_move_selection (rolls w (turns r)) w (board (glob r))
                 (sf (glob r)) 0 (LIQUID_STYLE (glob r))")
  have "res \<noteq> Inl e'" for e'
    using selection_blitz_no_error [of 0 "rolls w (turns r)" w "board (glob r)" "sf (glob r)"
                                       "LIQUID_STYLE (glob r)" e'] sel
    by simp
  then obtain bm where res: "res = Inr bm"
    by (cases res) auto
  from assms sel res obtain m g' where
    "make_move w m (snd (update_clock True (now w (ticks r)) (glob r\<lparr>sf := s\<rparr>)))
       = (Some e, g')"
    by (auto simp: engine_turn_def Let_def thinking_time_at_zero
             split: option.splits if_splits prod.splits)
  from make_move_error [OF this] show ?thesis
    by blast
qed

text \<open>
  C5. When the engine's remaining time is exactly 0, the game loop ends and the
  message is the time forfeit, also in a checkmate position: the message tests
  the engine's clock first. At the head of either loop a clock at 0 ends the
  loop at once. In the loop for White the clock can reach 0 in the opponent's
  turn, the last step of a round, and the loop ends at the next test. In the
  loop for Black it can reach 0 in the opponent's turn that opens a round; the
  round is then finished (the engine moves in blitz mode with no thinking time)
  and the loop ends with the same message, unless a collaborator rejects the
  engine's move and \<^verbatim>\<open>make_move\<close> raises.
\<close>

theorem time_forfeit_beats_checkmate:
  "(engine_time_remaining g = 0 \<and> is_checkmate (board g)
      \<longrightarrow> game_over_message g = LiquidOutOfTime)
   \<and> (engine_time_remaining (glob r) = 0
        \<longrightarrow> white_loop w r = Inr r \<and> black_loop w r = Inr r
            \<and> main_game w player_is_white r = Inr LiquidOutOfTime)
   \<and> (loop_condition (glob r) \<and> engine_turn w r = Inr (True, r1)
        \<and> \<not> is_game_over (board (glob r1)) \<and> opponent_turn w r1 = Inr r2
        \<and> engine_time_remaining (glob r2) = 0
        \<longrightarrow> main_game w True r = Inr LiquidOutOfTime)
   \<and> (loop_condition (glob r) \<and> opponent_turn w r = Inr r3
        \<and> engine_time_remaining (glob r3) = 0
        \<longrightarrow> main_game w False r = Inr LiquidOutOfTime
            \<or> (main_game w False r = Inl ValueError
                \<and> ((\<exists>b m. push_uci w b m = None) \<or> (\<exists>s m. \<not> is_move_correct w s m))))"
proof (intro conjI impI)
  assume "engine_time_remaining g = 0 \<and> is_checkmate (board g)"
  then show "game_over_message g = LiquidOutOfTime"
    by (simp add: out_of_time_message)
next
  assume z: "engine_time_remaining (glob r) = 0"
  then have stop: "\<not> loop_condition (glob r)"
    by (simp add: loop_condition_def)
  show "white_loop w r = Inr r"
    using stop by (rule white_loop_exit)
  show "black_loop w r = Inr r"
    using stop by (rule black_loop_exit)
  show "main_game w player_is_white r = Inr LiquidOutOfTime"
    using z by (simp add: main_game_def white_loop_exit [OF stop] black_loop_exit [OF stop]
                      out_of_time_message)
next
  assume a: "loop_condition (glob r) \<and> engine_turn w r = Inr (True, r1)
        \<and> \<not> is_game_over (board (glob r1)) \<and> opponent_turn w r1 = Inr r2
        \<and> engine_time_remaining (glob r2) = 0"
  then have "engine_time_remaining (glob r1) = engine_time_remaining (glob r)"
    using engine_turn_engine_time by blast
  with a have pos: "\<not> engine_time_remaining (glob r1) \<le> 0"
    by (simp add: loop_condition_def)
  have stop: "\<not> loop_condition (glob r2)"
    using a by (simp add: loop_condition_def)
  have "white_loop w r = white_loop w r2"
    using a pos by (simp add: white_loop.simps [of w r])
  also have "\<dots> = Inr r2"
    using stop by (rule white_loop_exit)
  finally show "main_game w True r = Inr LiquidOutOfTime"
    using a by (simp add: main_game_def out_of_time_message)
next
  assume a: "loop_condition (glob r) \<and> opponent_turn w r = Inr r3
        \<and> engine_time_remaining (glob r3) = 0"
  let ?rej = "(\<exists>b m. push_uci w b m = None) \<or> (\<exists>s m. \<not> is_move_correct w s m)"
  have step: "black_loop w r =
          (if is_game_over (board (glob r3)) \<or> opponent_time_remaining (glob r3) \<le> 0
           then Inr r3
           else (case engine_turn w r3 of
                   Inl e \<Rightarrow> Inl e
                 | Inr (go_on, r4) \<Rightarrow> if \<not> go_on then Inr r4 else black_loop w r4))"
    using a by (simp add: black_loop.simps [of w r])
  show "main_game w False r = Inr LiquidOutOfTime
            \<or> (main_game w False r = Inl ValueError \<and> ?rej)"
  proof (cases "is_game_over (board (glob r3)) \<or> opponent_time_remaining (glob r3) \<le> 0")
    case True
    then have "black_loop w r = Inr r3"
      using step by simp
    then show ?thesis
      using a by (simp add: main_game_def out_of_time_message)
  next
    case False
    show ?thesis
    proof (cases "engine_turn w r3")
      case (Inl e)
      then have "e = ValueError \<and> ?rej"
        using a engine_turn_error_at_zero by blast
      moreover have "black_loop w r = Inl e"
        using step False Inl by simp
      ultimately show ?thesis
        by (simp add: main_game_def)
    next
      case (Inr res)
      obtain go_on r4 where res: "res = (go_on, r4)"
        by (cases res)
      have z: "engine_time_remaining (glob r4) = 0"
        using engine_turn_engine_time [of w r3 go_on r4] Inr res a by simp
      then have "\<not> loop_condition (glob r4)"
        by (simp add: loop_condition_def)
      then have "black_loop w r4 = Inr r4"
        by (rule black_loop_exit)
      then have "black_loop w r = Inr r4"
        using step False Inr res by simp
      then show ?thesis
        using z by (simp add: main_game_def out_of_time_message)
    qed
  qed
qed

text \<open>The sample runs, step by step.\<close>

lemma sample_selection_calm:
  "liquid_style_move_selection even_draws (sample_world clock) start_board
     \<lparr>skill_level = 20, sf_moves = []\<rparr> 600 initial_style
   = (\<lparr>skill_level = 19, sf_moves = []\<rparr>, Inr (Some ''d2d4''))"
proof -
  have tp: "get_time_pressure 600 (fullmove_number start_board) = 0"
    by (simp add: get_time_pressure_def GAME_DURATION_def start_board_fields)
  have solid: "calm_flow_solid (sample_world clock) start_board [] (take 4 opening_candidates)
                 = Inr (take 4 opening_candidates)"
    by (simp add: opening_candidates_def candidate_def is_calm_move_def sample_world_def
          opening_moves_def start_board_def back_rank_def)
  have calm: "calm_flow_moves even_draws (sample_world clock) start_board
                (take 4 opening_candidates) 0 = Inr ''d2d4''"
    unfolding calm_flow_moves_def solid
    by (simp add: even_draws_fields opening_candidates_def candidate_def random_choice_def
          py_slice_def)
  have tm: "get_top_moves (sample_world clock) \<lparr>skill_level = 19, sf_moves = []\<rparr> 4
              = take 4 opening_candidates"
    by (simp add: sample_world_fields)
  have ne: "take 4 opening_candidates \<noteq> []"
    by (simp add: opening_candidates_def)
  have sk: "selection_skill even_draws 0 = 19"
    by (simp add: selection_skill_def random_randint_def even_draws_fields)
  have n: "selection_top_n 0 0.6 = 4"
    by (simp add: selection_top_n_def)
  show ?thesis
    unfolding liquid_style_move_selection_def tp start_board_tension Let_def sk n
    by (simp only: stockfish.simps tm ne calm initial_style_fields if_False if_True
          map_sum.simps id_apply simp_thms)
       simp
qed

lemma sample_thinking_time: "adaptive_thinking_time even_draws start_board 600 0 = 3"
  by (simp add: adaptive_thinking_time_def get_time_pressure_def GAME_DURATION_def
        start_board_fields even_draws_fields uniform_def Let_def)

lemma sample_engine_turn:
  "engine_turn (sample_world clock) (first_run lines)
     = Inr (True,
            \<lparr>glob = \<lparr>board = after_white,
                      sf = \<lparr>skill_level = 19, sf_moves = [''d2d4'']\<rparr>,
                      engine_time_remaining = 600,
                      opponent_time_remaining = 600 - clock 0,
                      last_move_time = clock 0,
                      LIQUID_STYLE = update_liquid_momentum after_white ''d2d4'' 3 initial_style\<rparr>,
             ticks = 1, turns = 1, inputs = lines\<rparr>)"
proof -
  have mk: "make_move (sample_world clock) ''d2d4''
              \<lparr>board = start_board, sf = \<lparr>skill_level = 19, sf_moves = []\<rparr>,
               engine_time_remaining = 600, opponent_time_remaining = 600 - clock 0,
               last_move_time = clock 0, LIQUID_STYLE = initial_style\<rparr>
            = (None, \<lparr>board = after_white, sf = \<lparr>skill_level = 19, sf_moves = [''d2d4'']\<rparr>,
               engine_time_remaining = 600, opponent_time_remaining = 600 - clock 0,
               last_move_time = clock 0, LIQUID_STYLE = initial_style\<rparr>)"
    by (simp add: make_move_def sample_world_fields start_board_fields after_white_def)
  show ?thesis
    unfolding engine_turn_def first_run_def initial_globals_def GAME_DURATION_def
    by (simp add: Let_def sample_world_fields sample_selection_calm sample_thinking_time
          initial_style_def [symmetric] update_clock_def mk initial_style_fields)
qed

lemma sample_opponent_reply:
  "opponent_turn (sample_world clock)
     \<lparr>glob = \<lparr>board = after_white, sf = s, engine_time_remaining = 600,
               opponent_time_remaining = t, last_move_time = clock 0, LIQUID_STYLE = st\<rparr>,
      ticks = 1, turns = n, inputs = [''e7e5'']\<rparr>
   = Inr \<lparr>glob = \<lparr>board = after_black, sf = s\<lparr>sf_moves := sf_moves s @ [''e7e5'']\<rparr>,
                   engine_time_remaining = 600 - (clock 1 - clock 0),
                   opponent_time_remaining = t, last_move_time = clock 1,
                   LIQUID_STYLE = update_liquid_momentum after_black ''e7e5'' 0 st\<rparr>,
          ticks = 2, turns = n, inputs = []\<rparr>"
  by (simp add: opponent_turn_def sample_lines_not_quit sample_moves_legal update_clock_def
        make_move_def Let_def sample_world_fields after_white_fields after_black_def)

lemma sample_opponent_first:
  "opponent_turn (sample_world clock) (first_run [''e2e4''])
   = Inr \<lparr>glob = \<lparr>board = after_white, sf = \<lparr>skill_level = 20, sf_moves = [''e2e4'']\<rparr>,
                   engine_time_remaining = 600 - clock 0,
                   opponent_time_remaining = 600, last_move_time = clock 0,
                   LIQUID_STYLE = update_liquid_momentum after_white ''e2e4'' 0 initial_style\<rparr>,
          ticks = 1, turns = 0, inputs = []\<rparr>"
  by (simp add: opponent_turn_def first_run_def initial_globals_def GAME_DURATION_def
        sample_lines_not_quit sample_moves_legal update_clock_def make_move_def Let_def
        sample_world_fields start_board_fields after_white_def)

theorem time_forfeit_beats_checkmate_witness:
  "engine_time_remaining (glob flagged_run) = 0 \<and> is_checkmate (board (glob flagged_run))
   \<and> game_over_message (glob flagged_run) = LiquidOutOfTime
   \<and> main_game (sample_world (\<lambda>k. 0)) True flagged_run = Inr LiquidOutOfTime
   \<and> loop_condition (glob (first_run [''e7e5'']))
   \<and> (\<exists>r1 r2. engine_turn (sample_world (\<lambda>k. 3 + 600 * real k)) (first_run [''e7e5''])
                  = Inr (True, r1)
          \<and> \<not> is_game_over (board (glob r1))
          \<and> opponent_turn (sample_world (\<lambda>k. 3 + 600 * real k)) r1 = Inr r2
          \<and> engine_time_remaining (glob r2) = 0 \<and> is_checkmate (board (glob r2)))
   \<and> main_game (sample_world (\<lambda>k. 3 + 600 * real k)) True (first_run [''e7e5''])
       = Inr LiquidOutOfTime
   \<and> loop_condition (glob (first_run [''e2e4'']))
   \<and> (\<exists>r3. opponent_turn (sample_world (\<lambda>k. 600 + 3 * real k)) (first_run [''e2e4''])
               = Inr r3
          \<and> engine_time_remaining (glob r3) = 0)
   \<and> main_game (sample_world (\<lambda>k. 600 + 3 * real k)) False (first_run [''e2e4''])
       = Inr LiquidOutOfTime"
proof -
  let ?w = "sample_world (\<lambda>k. 3 + 600 * real k)"
  let ?b = "sample_world (\<lambda>k. 600 + 3 * real k)"
  let ?r1 = "\<lparr>glob = \<lparr>board = after_white,
                      sf = \<lparr>skill_level = 19, sf_moves = [''d2d4'']\<rparr>,
                      engine_time_remaining = 600,
                      opponent_time_remaining = 600 - (3 + 600 * real (0::nat)),
                      last_move_time = 3 + 600 * real (0::nat),
                      LIQUID_STYLE = update_liquid_momentum after_white ''d2d4'' 3 initial_style\<rparr>,
             ticks = 1, turns = 1, inputs = [''e7e5'']\<rparr>"
  have flag: "engine_time_remaining (glob flagged_run) = 0"
    "is_checkmate (board (glob flagged_run))"
    by (simp_all add: flagged_run_def initial_globals_def after_black_fields)
  have e: "engine_turn ?w (first_run [''e7e5'']) = Inr (True, ?r1)"
    by (rule sample_engine_turn)
  define r2 where "r2 =
     \<lparr>glob = \<lparr>board = after_black,
               sf = \<lparr>skill_level = 19, sf_moves = [''d2d4'', ''e7e5'']\<rparr>,
               engine_time_remaining = 0, opponent_time_remaining = 597, last_move_time = 603,
               LIQUID_STYLE = update_liquid_momentum after_black ''e7e5'' 0
                                (update_liquid_momentum after_white ''d2d4'' 3 initial_style)\<rparr>,
      ticks = 2, turns = 1, inputs = []\<rparr>"
  have o: "opponent_turn ?w ?r1 = Inr r2"
    using sample_opponent_reply
            [where clock = "\<lambda>k. 3 + 600 * real k" and n = 1 and t = 597
               and s = "\<lparr>skill_level = 19, sf_moves = [''d2d4'']\<rparr>"
               and st = "update_liquid_momentum after_white ''d2d4'' 3 initial_style"]
    by (simp add: r2_def)
  have z: "engine_time_remaining (glob r2) = 0" and m: "is_checkmate (board (glob r2))"
    by (simp_all add: r2_def after_black_fields)
  have q: "\<not> is_game_over (board (glob ?r1))"
    by (simp add: after_white_fields)
  define r3 where "r3 =
     \<lparr>glob = \<lparr>board = after_white, sf = \<lparr>skill_level = 20, sf_moves = [''e2e4'']\<rparr>,
               engine_time_remaining = 0, opponent_time_remaining = 600, last_move_time = 600,
               LIQUID_STYLE = update_liquid_momentum after_white ''e2e4'' 0 initial_style\<rparr>,
      ticks = 1, turns = 0, inputs = []\<rparr>"
  have o3: "opponent_turn ?b (first_run [''e2e4'']) = Inr r3"
    using sample_opponent_first [where clock = "\<lambda>k. 600 + 3 * real k"]
    by (simp add: r3_def)
  have z3: "engine_time_remaining (glob r3) = 0"
    by (simp add: r3_def)
  note head = time_forfeit_beats_checkmate
                [where g = "glob flagged_run" and r = flagged_run
                   and w = "sample_world (\<lambda>k. 0)" and player_is_white = True]
  note white = time_forfeit_beats_checkmate
                 [where r = "first_run [''e7e5'']" and w = ?w and ?r1.0 = ?r1 and ?r2.0 = r2]
  note black = time_forfeit_beats_checkmate
                 [where r = "first_run [''e2e4'']" and w = ?b and ?r3.0 = r3]
  have a: "game_over_message (glob flagged_run) = LiquidOutOfTime"
    "main_game (sample_world (\<lambda>k. 0)) True flagged_run = Inr LiquidOutOfTime"
    using head flag by simp_all
  have b: "main_game ?w True (first_run [''e7e5'']) = Inr LiquidOutOfTime"
    using white first_run_loop_condition e q o z by blast
  have c: "main_game ?b False (first_run [''e2e4'']) = Inr LiquidOutOfTime"
    using black first_run_loop_condition o3 z3
      sample_world_accepts [of "\<lambda>k. 600 + 3 * real k"]
    by blast
  show ?thesis
    using flag a b c first_run_loop_condition e q o z m o3 z3 by blast
qed

end
